theory Spec2Isabelle
  imports Main
begin

section \<open>Python values, exceptions and binary64 arithmetic\<close>

text \<open>
  The notebook's snippets are plain Python classes. An exception is a value of
  \<open>error\<close>; a call that may raise returns \<open>error + 'a\<close> with \<open>Inl\<close> for the raise.
  A method returns its result together with \<open>self\<close> as the call leaves it, so that
  an assignment to an attribute inside a method would show in the returned object.
  The dimension attributes of the shapes are Python ints (unbounded, \<open>int\<close>), as in
  every transcript of the notebook; the area of a circle is a Python float.
\<close>

datatype error =
    KeyError string
  | AttributeError string
  | OverflowError string
  | NotImplementedError string
  | FileNotFoundError string
  | UnicodeEncodeError
  | UnicodeDecodeError

text \<open>
  A Python float is an IEEE 754 binary64 value. \<open>Finite s m e\<close> is
  \<open>(-1)^s * m * 2^e\<close> with \<open>m < 2^53\<close> and \<open>-1074 \<le> e \<le> 971\<close>, the mantissa
  normalised (\<open>2^52 \<le> m\<close>) unless \<open>e = -1074\<close>, so every value has one representation.
\<close>

datatype double = Finite bool nat int | Infinity bool | NaN

text \<open>\<open>int.bit_length()\<close>: the number of binary digits of a natural number.\<close>

function bit_length :: "nat \<Rightarrow> nat" where
  "bit_length n = (if n = 0 then 0 else Suc (bit_length (n div 2)))"
  by pat_completeness auto
termination
  by (relation "measure id") auto

declare bit_length.simps [simp del]

text \<open>The quotient \<open>n / d\<close> rounded to the nearest natural number, ties to even.\<close>

definition round_half_even :: "nat \<Rightarrow> nat \<Rightarrow> nat" where
  "round_half_even n d =
     (let q = n div d; r = n mod d
      in if d < 2 * r \<or> (2 * r = d \<and> odd q) then q + 1 else q)"

text \<open>
  \<open>round_double s n d\<close> is the binary64 value nearest to the rational \<open>(-1)^s * n / d\<close>
  (\<open>d > 0\<close>), ties to even, with gradual underflow and overflow to infinity: the
  rounding of every correctly rounded operation of IEEE 754. The exponent \<open>e\<close> is
  chosen with \<open>2^52 \<le> n / (d * 2^e) < 2^53\<close>, not below \<open>-1074\<close>.
\<close>

definition scaled_num :: "nat \<Rightarrow> int \<Rightarrow> nat" where
  "scaled_num n e = n * 2 ^ nat (- e)"

definition scaled_den :: "nat \<Rightarrow> int \<Rightarrow> nat" where
  "scaled_den d e = d * 2 ^ nat e"

definition round_double :: "bool \<Rightarrow> nat \<Rightarrow> nat \<Rightarrow> double" where
  "round_double s n d =
     (if n = 0 then Finite s 0 (- 1074)
      else
        let e0 = int (bit_length n) - int (bit_length d) - 53;
            e1 = (if scaled_num n e0 < 2 ^ 53 * scaled_den d e0 then e0 else e0 + 1);
            e2 = max e1 (- 1074);
            m = round_half_even (scaled_num n e2) (scaled_den d e2);
            e3 = (if m = 2 ^ 53 then e2 + 1 else e2);
            m3 = (if m = 2 ^ 53 then 2 ^ 52 else m)
        in if 971 < e3 then Infinity s else Finite s m3 e3)"

text \<open>
  \<open>float(n)\<close> for a Python int, as the mixed operation \<open>float * int\<close> performs it:
  correctly rounded, and \<open>OverflowError\<close> when the int is beyond the float range.
\<close>

definition float_of_int :: "int \<Rightarrow> error + double" where
  "float_of_int n =
     (case round_double (n < 0) (nat \<bar>n\<bar>) 1 of
        Finite s m e \<Rightarrow> Inr (Finite s m e)
      | _ \<Rightarrow> Inl (OverflowError ''int too large to convert to float''))"

text \<open>\<open>x * y\<close> on floats: the exact product, rounded; never raises.\<close>

fun float_mul :: "double \<Rightarrow> double \<Rightarrow> double" where
  "float_mul NaN _ = NaN"
| "float_mul _ NaN = NaN"
| "float_mul (Infinity s1) (Infinity s2) = Infinity (s1 \<noteq> s2)"
| "float_mul (Infinity s1) (Finite s2 m2 e2) = (if m2 = 0 then NaN else Infinity (s1 \<noteq> s2))"
| "float_mul (Finite s1 m1 e1) (Infinity s2) = (if m1 = 0 then NaN else Infinity (s1 \<noteq> s2))"
| "float_mul (Finite s1 m1 e1) (Finite s2 m2 e2) =
     round_double (s1 \<noteq> s2) (m1 * m2 * 2 ^ nat (e1 + e2)) (2 ^ nat (- (e1 + e2)))"

text \<open>\<open>x * n\<close> for a float \<open>x\<close> and an int \<open>n\<close>: \<open>n\<close> is converted first.\<close>

definition float_mul_int :: "double \<Rightarrow> int \<Rightarrow> error + double" where
  "float_mul_int x n =
     (case float_of_int n of Inl err \<Rightarrow> Inl err | Inr y \<Rightarrow> Inr (float_mul x y))"

text \<open>\<open>math.pi\<close>, the binary64 value \<open>0x1.921fb54442d18p+1\<close> nearest to \<open>\<pi>\<close>.\<close>

definition pi :: double where
  "pi = Finite False 7074237752028440 (- 51)"

text \<open>
  The float that a decimal literal denotes and that \<open>repr\<close> reads back:
  \<open>float_of_decimal m k\<close> is the literal with digits \<open>m\<close> and \<open>k\<close> of them after the
  point, \<open>m / 10^k\<close> correctly rounded.
\<close>

definition float_of_decimal :: "nat \<Rightarrow> nat \<Rightarrow> double" where
  "float_of_decimal m k = round_double False m (10 ^ k)"

text \<open>What \<open>calculate_area\<close> can return: an int, a float, or \<open>None\<close>.\<close>

datatype pyval = PInt int | PFloat double | PNone

section \<open>shapes_ocp.py: the \<open>Shape\<close> class with a type tag\<close>

text \<open>
  An instance has the attribute \<open>shape_type\<close> and those of \<open>width\<close>, \<open>height\<close> and
  \<open>radius\<close> that \<open>__init__\<close> assigned; an attribute never assigned is \<open>None\<close> here
  and reading it raises \<open>AttributeError\<close>. \<open>kwargs\<close> is the dict of keyword arguments.
\<close>

record Shape =
  shape_type :: string
  width :: "int option"
  height :: "int option"
  radius :: "int option"

definition Shape_init :: "string \<Rightarrow> (string \<rightharpoonup> int) \<Rightarrow> error + Shape" where
  "Shape_init shape_type' kwargs =
     (let self = \<lparr>shape_type = shape_type', width = None, height = None, radius = None\<rparr>
      in if shape_type self = ''rectangle'' then
           (case kwargs ''width'' of
              None \<Rightarrow> Inl (KeyError ''width'')
            | Some w \<Rightarrow>
                (case kwargs ''height'' of
                   None \<Rightarrow> Inl (KeyError ''height'')
                 | Some h \<Rightarrow> Inr (self\<lparr>width := Some w, height := Some h\<rparr>)))
         else if shape_type self = ''circle'' then
           (case kwargs ''radius'' of
              None \<Rightarrow> Inl (KeyError ''radius'')
            | Some r \<Rightarrow> Inr (self\<lparr>radius := Some r\<rparr>))
         else Inr self)"

definition Shape_calculate_area :: "Shape \<Rightarrow> (error + pyval) \<times> Shape" where
  "Shape_calculate_area self =
     (if shape_type self = ''rectangle'' then
        (case width self of
           None \<Rightarrow> Inl (AttributeError ''width'')
         | Some w \<Rightarrow>
             (case height self of
                None \<Rightarrow> Inl (AttributeError ''height'')
              | Some h \<Rightarrow> Inr (PInt (w * h))))
      else if shape_type self = ''circle'' then
        (case radius self of
           None \<Rightarrow> Inl (AttributeError ''radius'')
         | Some r \<Rightarrow> map_sum id PFloat (float_mul_int pi (r ^ 2)))
      else Inr PNone,
      self)"

text \<open>The expression \<open>Shape(shape_type, **kwargs).calculate_area()\<close> of the transcript.\<close>

definition Shape_area :: "string \<Rightarrow> (string \<rightharpoonup> int) \<Rightarrow> error + pyval" where
  "Shape_area shape_type' kwargs =
     (case Shape_init shape_type' kwargs of
        Inl err \<Rightarrow> Inl err
      | Inr self \<Rightarrow> fst (Shape_calculate_area self))"

section \<open>shapes_ocp.py: the abstract \<open>Shape\<close> and its subclasses\<close>

text \<open>
  An instance of a subclass of the abstract \<open>Shape\<close> is a constructor of
  \<open>shape_ocp\<close> holding its attributes: \<open>shape_type\<close> first, as \<open>Shape.__init__\<close>
  assigns it, then the dimensions. The call \<open>shape.calculate_area()\<close> dispatches on
  the class.
\<close>

datatype shape_ocp =
    Circle string int
  | Rectangle string int int
  | Square string int

definition Circle_init :: "int \<Rightarrow> shape_ocp" where
  "Circle_init radius' = Circle ''circle'' radius'"

definition Rectangle_init :: "int \<Rightarrow> int \<Rightarrow> shape_ocp" where
  "Rectangle_init width' height' = Rectangle ''rectangle'' width' height'"

definition Square_init :: "int \<Rightarrow> shape_ocp" where
  "Square_init side = Square ''square'' side"

fun calculate_area_ocp :: "shape_ocp \<Rightarrow> (error + pyval) \<times> shape_ocp" where
  "calculate_area_ocp (Circle st r) =
     (map_sum id PFloat (float_mul_int pi (r ^ 2)), Circle st r)"
| "calculate_area_ocp (Rectangle st w h) = (Inr (PInt (w * h)), Rectangle st w h)"
| "calculate_area_ocp (Square st a) = (Inr (PInt (a ^ 2)), Square st a)"

section \<open>shapes_lsp.py, first listing: \<open>Square\<close> derived from \<open>Rectangle\<close>\<close>

text \<open>
  Here the instance dictionary matters (\<open>Square.__setattr__\<close> writes to
  \<open>self.__dict__\<close>, and the transcript prints \<open>vars(square)\<close>), so an object is its
  class and its \<open>__dict__\<close>. An assignment \<open>obj.key = value\<close> goes through the
  \<open>__setattr__\<close> of the object's class, also inside the inherited
  \<open>Rectangle.__init__\<close>.
\<close>

datatype class_lsp1 = RectangleClass | SquareClass

record 'v object_lsp1 =
  cls :: class_lsp1
  dict :: "string \<rightharpoonup> 'v"

definition object_setattr :: "'v object_lsp1 \<Rightarrow> string \<Rightarrow> 'v \<Rightarrow> 'v object_lsp1" where
  "object_setattr self key val = self\<lparr>dict := (dict self)(key \<mapsto> val)\<rparr>"

definition Square_setattr :: "'v object_lsp1 \<Rightarrow> string \<Rightarrow> 'v \<Rightarrow> 'v object_lsp1" where
  "Square_setattr self key val =
     (let self1 = object_setattr self key val
      in if key = ''width'' \<or> key = ''height''
         then self1\<lparr>dict := (dict self1)(''width'' \<mapsto> val, ''height'' \<mapsto> val)\<rparr>
         else self1)"

definition setattr :: "'v object_lsp1 \<Rightarrow> string \<Rightarrow> 'v \<Rightarrow> 'v object_lsp1" where
  "setattr self key val =
     (case cls self of
        RectangleClass \<Rightarrow> object_setattr self key val
      | SquareClass \<Rightarrow> Square_setattr self key val)"

definition Rectangle_lsp1_init :: "'v object_lsp1 \<Rightarrow> 'v \<Rightarrow> 'v \<Rightarrow> 'v object_lsp1" where
  "Rectangle_lsp1_init self width' height' =
     setattr (setattr self ''width'' width') ''height'' height'"

definition Square_lsp1_init :: "'v object_lsp1 \<Rightarrow> 'v \<Rightarrow> 'v object_lsp1" where
  "Square_lsp1_init self side = Rectangle_lsp1_init self side side"

text \<open>\<open>Rectangle(width, height)\<close> and \<open>Square(side)\<close>: a new object, initialised.\<close>

definition Rectangle_lsp1 :: "'v \<Rightarrow> 'v \<Rightarrow> 'v object_lsp1" where
  "Rectangle_lsp1 width' height' =
     Rectangle_lsp1_init \<lparr>cls = RectangleClass, dict = Map.empty\<rparr> width' height'"

definition Square_lsp1 :: "'v \<Rightarrow> 'v object_lsp1" where
  "Square_lsp1 side = Square_lsp1_init \<lparr>cls = SquareClass, dict = Map.empty\<rparr> side"

definition getattr :: "'v object_lsp1 \<Rightarrow> string \<Rightarrow> error + 'v" where
  "getattr self key =
     (case dict self key of None \<Rightarrow> Inl (AttributeError key) | Some v \<Rightarrow> Inr v)"

text \<open>\<open>Rectangle.calculate_area\<close>, which \<open>Square\<close> inherits.\<close>

definition calculate_area_lsp1 :: "int object_lsp1 \<Rightarrow> (error + pyval) \<times> int object_lsp1" where
  "calculate_area_lsp1 self =
     (case getattr self ''width'' of
        Inl err \<Rightarrow> Inl err
      | Inr w \<Rightarrow>
          (case getattr self ''height'' of
             Inl err \<Rightarrow> Inl err
           | Inr h \<Rightarrow> Inr (PInt (w * h))),
      self)"

section \<open>shapes_lsp.py, final listing: \<open>Rectangle\<close> and \<open>Square\<close> as siblings\<close>

datatype shape_lsp = Rectangle_lsp int int | Square_lsp int

fun calculate_area_lsp :: "shape_lsp \<Rightarrow> int \<times> shape_lsp" where
  "calculate_area_lsp (Rectangle_lsp w h) = (w * h, Rectangle_lsp w h)"
| "calculate_area_lsp (Square_lsp a) = (a ^ 2, Square_lsp a)"

text \<open>
  \<open>sum(shape.calculate_area() for shape in shapes)\<close>: \<open>sum\<close> starts from \<open>0\<close> and adds
  the areas from left to right.
\<close>

definition get_total_area :: "shape_lsp list \<Rightarrow> int" where
  "get_total_area shapes = foldl (+) 0 (map (\<lambda>shape. fst (calculate_area_lsp shape)) shapes)"

section \<open>app_dip.py, second listing: \<open>FrontEnd\<close> over a \<open>DataSource\<close>\<close>

text \<open>
  Standard output is here the string written so far. \<open>print(a, b, ...)\<close> writes its
  arguments separated by a space and ends the line. Every text printed in this
  listing is an ASCII literal of the listing itself, which standard output always
  takes; so \<open>print\<close> cannot raise here. \<open>display_data\<close> returns how it ended
  (\<open>Inr ()\<close>: it returned) and the output after it.
\<close>

fun join_args :: "string list \<Rightarrow> string" where
  "join_args [] = []"
| "join_args [x] = x"
| "join_args (x # y # ys) = x @ '' '' @ join_args (y # ys)"

definition py_print :: "string list \<Rightarrow> string \<Rightarrow> string" where
  "py_print args stdout = stdout @ join_args args @ [CHR 0x0A]"

datatype DataSource = Database | API

fun get_data :: "DataSource \<Rightarrow> string" where
  "get_data Database = ''Data from the database''"
| "get_data API = ''Data from the API''"

record FrontEnd =
  data_source :: DataSource

definition FrontEnd_init :: "DataSource \<Rightarrow> FrontEnd" where
  "FrontEnd_init data_source' = \<lparr>data_source = data_source'\<rparr>"

definition display_data :: "FrontEnd \<Rightarrow> string \<Rightarrow> (error + unit) \<times> string" where
  "display_data self stdout =
     (let data = get_data (data_source self)
      in (Inr (), py_print [''Display data:'', data] stdout))"

section \<open>file_manager_srp.py, second listing: \<open>FileManager\<close>\<close>

text \<open>
  A \<open>str\<close> is a list of Unicode code points and a file holds bytes, both as natural
  numbers. The methods are modelled at their default argument \<open>encoding="utf-8"\<close>.
  \<open>Path.write_text\<close> and \<open>Path.read_text\<close> open the file in text mode with the
  default \<open>newline=None\<close>: on writing, every \<open>'\n'\<close> becomes \<open>os.linesep\<close> and the
  text is then encoded; on reading, the bytes are decoded and then every \<open>'\r\n'\<close>
  and every remaining \<open>'\r'\<close> becomes \<open>'\n'\<close> (universal newlines).
\<close>

type_synonym pystr = "nat list"
type_synonym bytes = "nat list"

definition utf8_encode_cp :: "nat \<Rightarrow> error + bytes" where
  "utf8_encode_cp c =
     (if c < 0x80 then Inr [c]
      else if c < 0x800 then Inr [0xC0 + c div 64, 0x80 + c mod 64]
      else if 0xD800 \<le> c \<and> c \<le> 0xDFFF then Inl UnicodeEncodeError
      else if c < 0x10000 then
        Inr [0xE0 + c div 4096, 0x80 + c div 64 mod 64, 0x80 + c mod 64]
      else if c < 0x110000 then
        Inr [0xF0 + c div 262144, 0x80 + c div 4096 mod 64, 0x80 + c div 64 mod 64,
             0x80 + c mod 64]
      else Inl UnicodeEncodeError)"

fun utf8_encode :: "pystr \<Rightarrow> error + bytes" where
  "utf8_encode [] = Inr []"
| "utf8_encode (c # cs) =
     (case utf8_encode_cp c of
        Inl err \<Rightarrow> Inl err
      | Inr bs \<Rightarrow>
          (case utf8_encode cs of Inl err \<Rightarrow> Inl err | Inr rest \<Rightarrow> Inr (bs @ rest)))"

definition continuation :: "nat \<Rightarrow> bool" where
  "continuation b \<longleftrightarrow> 0x80 \<le> b \<and> b < 0xC0"

definition decoded :: "nat \<Rightarrow> error + pystr \<Rightarrow> error + pystr" where
  "decoded c rest = (case rest of Inl err \<Rightarrow> Inl err | Inr cs \<Rightarrow> Inr (c # cs))"

text \<open>
  The strict decoder: a sequence is rejected when it is truncated, when a
  continuation byte is missing, when it is longer than the code point needs, and
  when it denotes a surrogate or a value beyond \<open>0x10FFFF\<close>.
\<close>

fun utf8_decode :: "bytes \<Rightarrow> error + pystr" where
  "utf8_decode [] = Inr []"
| "utf8_decode (b0 # bs) =
     (if b0 < 0x80 then decoded b0 (utf8_decode bs)
      else if 0xC0 \<le> b0 \<and> b0 < 0xE0 then
        (case bs of
           b1 # bs1 \<Rightarrow>
             (let c = (b0 - 0xC0) * 64 + (b1 - 0x80)
              in if continuation b1 \<and> 0x80 \<le> c
                 then decoded c (utf8_decode bs1) else Inl UnicodeDecodeError)
         | _ \<Rightarrow> Inl UnicodeDecodeError)
      else if 0xE0 \<le> b0 \<and> b0 < 0xF0 then
        (case bs of
           b1 # b2 # bs2 \<Rightarrow>
             (let c = (b0 - 0xE0) * 4096 + (b1 - 0x80) * 64 + (b2 - 0x80)
              in if continuation b1 \<and> continuation b2 \<and> 0x800 \<le> c
                    \<and> \<not> (0xD800 \<le> c \<and> c \<le> 0xDFFF)
                 then decoded c (utf8_decode bs2) else Inl UnicodeDecodeError)
         | _ \<Rightarrow> Inl UnicodeDecodeError)
      else if 0xF0 \<le> b0 \<and> b0 < 0xF8 then
        (case bs of
           b1 # b2 # b3 # bs3 \<Rightarrow>
             (let c = (b0 - 0xF0) * 262144 + (b1 - 0x80) * 4096 + (b2 - 0x80) * 64
                      + (b3 - 0x80)
              in if continuation b1 \<and> continuation b2 \<and> continuation b3
                    \<and> 0x10000 \<le> c \<and> c < 0x110000
                 then decoded c (utf8_decode bs3) else Inl UnicodeDecodeError)
         | _ \<Rightarrow> Inl UnicodeDecodeError)
      else Inl UnicodeDecodeError)"

text \<open>
  The code points that UTF-8 encodes: all up to \<open>0x10FFFF\<close> but the surrogates,
  which a \<open>str\<close> can hold and the codec refuses.
\<close>

definition encodable :: "nat \<Rightarrow> bool" where
  "encodable c \<longleftrightarrow> c < 0xD800 \<or> (0xDFFF < c \<and> c < 0x110000)"

text \<open>\<open>os.linesep\<close>: \<open>"\n"\<close> on POSIX, \<open>"\r\n"\<close> on Windows.\<close>

datatype os = Posix | Windows

fun linesep :: "os \<Rightarrow> pystr" where
  "linesep Posix = [10]"
| "linesep Windows = [13, 10]"

text \<open>Writing in text mode: each \<open>'\n'\<close> is replaced by the line separator.\<close>

fun translate_newlines :: "pystr \<Rightarrow> pystr \<Rightarrow> pystr" where
  "translate_newlines sep [] = []"
| "translate_newlines sep (c # cs) =
     (if c = 10 then sep else [c]) @ translate_newlines sep cs"

text \<open>Reading in text mode: \<open>'\r\n'\<close> and a lone \<open>'\r'\<close> are returned as \<open>'\n'\<close>.\<close>

fun universal_newlines :: "pystr \<Rightarrow> pystr" where
  "universal_newlines [] = []"
| "universal_newlines [c] = (if c = 13 then [10] else [c])"
| "universal_newlines (c # c1 # cs) =
     (if c = 13 \<and> c1 = 10 then 10 # universal_newlines cs
      else if c = 13 then 10 # universal_newlines (c1 # cs)
      else c # universal_newlines (c1 # cs))"

text \<open>
  The file system is a store from paths to file contents, in which every path can
  be created and written. \<open>Path(filename)\<close> is the path that the file name denotes.
\<close>

datatype Path = Path string

type_synonym filesystem = "Path \<rightharpoonup> bytes"

record FileManager =
  path :: Path

definition FileManager_init :: "string \<Rightarrow> FileManager" where
  "FileManager_init filename = \<lparr>path = Path filename\<rparr>"

text \<open>
  \<open>read\<close>: \<open>self.path.read_text("utf-8")\<close>. A missing file raises
  \<open>FileNotFoundError\<close>; bytes that are not UTF-8 raise \<open>UnicodeDecodeError\<close>.
\<close>

definition FileManager_read ::
  "FileManager \<Rightarrow> filesystem \<Rightarrow> (error + pystr) \<times> FileManager \<times> filesystem" where
  "FileManager_read self fs =
     (case fs (path self) of
        None \<Rightarrow> (Inl (FileNotFoundError ''No such file or directory''), self, fs)
      | Some content \<Rightarrow>
          (case utf8_decode content of
             Inl err \<Rightarrow> (Inl err, self, fs)
           | Inr text \<Rightarrow> (Inr (universal_newlines text), self, fs)))"

text \<open>
  \<open>write\<close>: \<open>self.path.write_text(data, "utf-8")\<close>; the method itself returns
  \<open>None\<close>. The file is opened for writing, which creates or empties it, before the
  text is encoded: when the encoding fails the file is left empty.
\<close>

definition FileManager_write ::
  "os \<Rightarrow> FileManager \<Rightarrow> pystr \<Rightarrow> filesystem \<Rightarrow> (error + unit) \<times> FileManager \<times> filesystem" where
  "FileManager_write sys self data fs =
     (case utf8_encode (translate_newlines (linesep sys) data) of
        Inl err \<Rightarrow> (Inl err, self, fs(path self \<mapsto> []))
      | Inr content \<Rightarrow> (Inr (), self, fs(path self \<mapsto> content)))"

section \<open>printers_isp.py\<close>

text \<open>
  A document is a \<open>str\<close>, and the f-string \<open>f"Printing {document} in color..."\<close> puts
  it between two literals; \<open>literal s\<close> is the \<open>str\<close> of an ASCII literal of the
  listing. Standard output is the text written so far. It encodes in UTF-8 (with the
  strict error handler, as Python sets it up on a UTF-8 terminal): a \<open>write\<close> of a text
  that UTF-8 cannot encode raises \<open>UnicodeEncodeError\<close> and writes nothing.
  \<open>print(text)\<close> with one argument writes the text and then the end of line. A method
  of a printer takes the document and the output and returns how it ended
  (\<open>Inr ()\<close>: it returned) and the output after it.
\<close>

definition literal :: "string \<Rightarrow> pystr" where
  "literal s = map of_char s"

definition stdout_write :: "pystr \<Rightarrow> pystr \<Rightarrow> (error + unit) \<times> pystr" where
  "stdout_write text stdout =
     (case utf8_encode text of
        Inl err \<Rightarrow> (Inl err, stdout)
      | Inr _ \<Rightarrow> (Inr (), stdout @ text))"

definition print_str :: "pystr \<Rightarrow> pystr \<Rightarrow> (error + unit) \<times> pystr" where
  "print_str text stdout =
     (case stdout_write text stdout of
        (Inl err, out) \<Rightarrow> (Inl err, out)
      | (Inr _, out) \<Rightarrow> stdout_write [10] out)"

subsection \<open>First listing: one \<open>Printer\<close> interface\<close>

definition OldPrinter_print :: "pystr \<Rightarrow> pystr \<Rightarrow> (error + unit) \<times> pystr" where
  "OldPrinter_print document stdout =
     print_str (literal ''Printing '' @ document @ literal '' in black and white...'') stdout"

definition OldPrinter_fax :: "pystr \<Rightarrow> pystr \<Rightarrow> (error + unit) \<times> pystr" where
  "OldPrinter_fax document stdout =
     (Inl (NotImplementedError ''Fax functionality not supported''), stdout)"

definition OldPrinter_scan :: "pystr \<Rightarrow> pystr \<Rightarrow> (error + unit) \<times> pystr" where
  "OldPrinter_scan document stdout =
     (Inl (NotImplementedError ''Scan functionality not supported''), stdout)"

definition ModernPrinter_print :: "pystr \<Rightarrow> pystr \<Rightarrow> (error + unit) \<times> pystr" where
  "ModernPrinter_print document stdout =
     print_str (literal ''Printing '' @ document @ literal '' in color...'') stdout"

definition ModernPrinter_fax :: "pystr \<Rightarrow> pystr \<Rightarrow> (error + unit) \<times> pystr" where
  "ModernPrinter_fax document stdout =
     print_str (literal ''Faxing '' @ document @ literal ''...'') stdout"

definition ModernPrinter_scan :: "pystr \<Rightarrow> pystr \<Rightarrow> (error + unit) \<times> pystr" where
  "ModernPrinter_scan document stdout =
     print_str (literal ''Scanning '' @ document @ literal ''...'') stdout"

subsection \<open>Second listing: \<open>Printer\<close>, \<open>Fax\<close> and \<open>Scanner\<close> segregated\<close>

definition OldPrinter_isp_print :: "pystr \<Rightarrow> pystr \<Rightarrow> (error + unit) \<times> pystr" where
  "OldPrinter_isp_print document stdout =
     print_str (literal ''Printing '' @ document @ literal '' in black and white...'') stdout"

definition NewPrinter_print :: "pystr \<Rightarrow> pystr \<Rightarrow> (error + unit) \<times> pystr" where
  "NewPrinter_print document stdout =
     print_str (literal ''Printing '' @ document @ literal '' in color...'') stdout"

definition NewPrinter_fax :: "pystr \<Rightarrow> pystr \<Rightarrow> (error + unit) \<times> pystr" where
  "NewPrinter_fax document stdout =
     print_str (literal ''Faxing '' @ document @ literal ''...'') stdout"

definition NewPrinter_scan :: "pystr \<Rightarrow> pystr \<Rightarrow> (error + unit) \<times> pystr" where
  "NewPrinter_scan document stdout =
     print_str (literal ''Scanning '' @ document @ literal ''...'') stdout"

section \<open>Evaluating the float operations\<close>

text \<open>
  The rounding is evaluated in the steps of its definition: the exponent from the
  bit lengths, its correction, the rounded quotient.
\<close>

lemma bit_length_0: "bit_length 0 = 0"
  by (simp add: bit_length.simps)

lemma bit_length_1: "bit_length 1 = 1"
  by (subst bit_length.simps) (simp add: bit_length_0)

lemma bit_length_Bit0: "bit_length (numeral (Num.Bit0 k)) = bit_length (numeral k) + 1"
  by (subst bit_length.simps) simp

lemma bit_length_Bit1: "bit_length (numeral (Num.Bit1 k)) = bit_length (numeral k) + 1"
  by (subst bit_length.simps) simp

lemmas bit_length_numeral = bit_length_0 bit_length_1 bit_length_Bit0 bit_length_Bit1

lemma round_double_steps:
  assumes "n \<noteq> 0"
    and "int (bit_length n) - int (bit_length d) - 53 = e0"
    and "(if scaled_num n e0 < 2 ^ 53 * scaled_den d e0 then e0 else e0 + 1) = e1"
    and "max e1 (- 1074) = e2"
    and "round_half_even (scaled_num n e2) (scaled_den d e2) = m"
    and "m \<noteq> 2 ^ 53" and "e2 \<le> 971"
  shows "round_double s n d = Finite s m e2"
  using assms by (simp add: round_double_def Let_def)

lemma float_of_int_25: "float_of_int 25 = Inr (Finite False 7036874417766400 (- 48))"
proof -
  have "round_double False 25 1 = Finite False 7036874417766400 (- 48)"
  proof (rule round_double_steps)
    show "(25::nat) \<noteq> 0" by simp
    show "int (bit_length 25) - int (bit_length 1) - 53 = - 49"
      by (simp add: bit_length_numeral)
    show "(if scaled_num 25 (- 49) < 2 ^ 53 * scaled_den 1 (- 49) then - 49 else - 49 + 1) = (- 48::int)"
      by (simp add: scaled_num_def scaled_den_def)
    show "max (- 48) (- 1074) = (- 48::int)" by simp
    show "round_half_even (scaled_num 25 (- 48)) (scaled_den 1 (- 48)) = 7036874417766400"
      by (simp add: scaled_num_def scaled_den_def round_half_even_def)
    show "(7036874417766400::nat) \<noteq> 2 ^ 53" by simp
    show "(- 48::int) \<le> 971" by simp
  qed
  then show ?thesis by (simp add: float_of_int_def)
qed

lemma pi_times_25:
  "float_mul pi (Finite False 7036874417766400 (- 48)) = Finite False 5526748243772219 (- 46)"
proof -
  have "round_double False (7074237752028440 * 7036874417766400) (2 ^ 99)
      = Finite False 5526748243772219 (- 46)"
  proof (rule round_double_steps)
    show "(7074237752028440 * 7036874417766400::nat) \<noteq> 0" by simp
    show "int (bit_length (7074237752028440 * 7036874417766400)) - int (bit_length (2 ^ 99)) - 53 = - 47"
      by (simp add: bit_length_numeral)
    show "(if scaled_num (7074237752028440 * 7036874417766400) (- 47)
              < 2 ^ 53 * scaled_den (2 ^ 99) (- 47) then - 47 else - 47 + 1) = (- 46::int)"
      by (simp add: scaled_num_def scaled_den_def)
    show "max (- 46) (- 1074) = (- 46::int)" by simp
    show "round_half_even (scaled_num (7074237752028440 * 7036874417766400) (- 46))
            (scaled_den (2 ^ 99) (- 46)) = 5526748243772219"
      by (simp add: scaled_num_def scaled_den_def round_half_even_def)
    show "(5526748243772219::nat) \<noteq> 2 ^ 53" by simp
    show "(- 46::int) \<le> 971" by simp
  qed
  then show ?thesis by (simp add: pi_def)
qed

lemma literal_16_digits:
  "float_of_decimal 7853981633974483 14 = Finite False 5526748243772219 (- 46)"
  unfolding float_of_decimal_def
proof (rule round_double_steps)
  show "(7853981633974483::nat) \<noteq> 0" by simp
  show "int (bit_length 7853981633974483) - int (bit_length (10 ^ 14)) - 53 = - 47"
    by (simp add: bit_length_numeral)
  show "(if scaled_num 7853981633974483 (- 47) < 2 ^ 53 * scaled_den (10 ^ 14) (- 47)
         then - 47 else - 47 + 1) = (- 46::int)"
    by (simp add: scaled_num_def scaled_den_def)
  show "max (- 46) (- 1074) = (- 46::int)" by simp
  show "round_half_even (scaled_num 7853981633974483 (- 46)) (scaled_den (10 ^ 14) (- 46))
          = 5526748243772219"
    by (simp add: scaled_num_def scaled_den_def round_half_even_def)
  show "(5526748243772219::nat) \<noteq> 2 ^ 53" by simp
  show "(- 46::int) \<le> 971" by simp
qed

lemma literal_15_digits_below:
  "float_of_decimal 785398163397448 13 = Finite False 5526748243772217 (- 46)"
  unfolding float_of_decimal_def
proof (rule round_double_steps)
  show "(785398163397448::nat) \<noteq> 0" by simp
  show "int (bit_length 785398163397448) - int (bit_length (10 ^ 13)) - 53 = - 47"
    by (simp add: bit_length_numeral)
  show "(if scaled_num 785398163397448 (- 47) < 2 ^ 53 * scaled_den (10 ^ 13) (- 47)
         then - 47 else - 47 + 1) = (- 46::int)"
    by (simp add: scaled_num_def scaled_den_def)
  show "max (- 46) (- 1074) = (- 46::int)" by simp
  show "round_half_even (scaled_num 785398163397448 (- 46)) (scaled_den (10 ^ 13) (- 46))
          = 5526748243772217"
    by (simp add: scaled_num_def scaled_den_def round_half_even_def)
  show "(5526748243772217::nat) \<noteq> 2 ^ 53" by simp
  show "(- 46::int) \<le> 971" by simp
qed

lemma literal_15_digits_above:
  "float_of_decimal 785398163397449 13 = Finite False 5526748243772224 (- 46)"
  unfolding float_of_decimal_def
proof (rule round_double_steps)
  show "(785398163397449::nat) \<noteq> 0" by simp
  show "int (bit_length 785398163397449) - int (bit_length (10 ^ 13)) - 53 = - 47"
    by (simp add: bit_length_numeral)
  show "(if scaled_num 785398163397449 (- 47) < 2 ^ 53 * scaled_den (10 ^ 13) (- 47)
         then - 47 else - 47 + 1) = (- 46::int)"
    by (simp add: scaled_num_def scaled_den_def)
  show "max (- 46) (- 1074) = (- 46::int)" by simp
  show "round_half_even (scaled_num 785398163397449 (- 46)) (scaled_den (10 ^ 13) (- 46))
          = 5526748243772224"
    by (simp add: scaled_num_def scaled_den_def round_half_even_def)
  show "(5526748243772224::nat) \<noteq> 2 ^ 53" by simp
  show "(- 46::int) \<le> 971" by simp
qed

lemma circle_area_5:
  "float_mul_int pi (5 ^ 2) = Inr (Finite False 5526748243772219 (- 46))"
  using float_of_int_25 pi_times_25 by (simp add: float_mul_int_def)

section \<open>The transcripts\<close>

text \<open>
  C1. \<open>Shape("rectangle", width=10, height=5).calculate_area()\<close> returns the int
  \<open>50\<close>, and \<open>Shape("circle", radius=5).calculate_area()\<close> returns the float
  \<open>pi * 5**2\<close>, which is the float of the literal \<open>78.53981633974483\<close> that the
  transcript prints: the binary64 value \<open>5526748243772219 * 2^-46\<close>. Neither
  neighbouring literal of 15 significant digits, \<open>78.5398163397448\<close> and
  \<open>78.5398163397449\<close>, denotes this float, so the 16 digits printed are needed.
\<close>

theorem shape_transcript_areas:
  "Shape_area ''rectangle'' [''width'' \<mapsto> 10, ''height'' \<mapsto> 5] = Inr (PInt 50)
   \<and> Shape_area ''circle'' [''radius'' \<mapsto> 5]
       = Inr (PFloat (float_of_decimal 7853981633974483 14))
   \<and> float_of_decimal 7853981633974483 14 = Finite False 5526748243772219 (- 46)
   \<and> float_of_decimal 785398163397448 13 \<noteq> float_of_decimal 7853981633974483 14
   \<and> float_of_decimal 785398163397449 13 \<noteq> float_of_decimal 7853981633974483 14"
proof -
  have rect: "Shape_area ''rectangle'' [''width'' \<mapsto> 10, ''height'' \<mapsto> 5] = Inr (PInt 50)"
    by (simp add: Shape_area_def Shape_init_def Shape_calculate_area_def)
  have circ: "Shape_area ''circle'' [''radius'' \<mapsto> 5]
       = Inr (PFloat (Finite False 5526748243772219 (- 46)))"
    using circle_area_5 by (simp add: Shape_area_def Shape_init_def Shape_calculate_area_def)
  show ?thesis
    using rect circ literal_16_digits literal_15_digits_below literal_15_digits_above
    by simp
qed

text \<open>
  C2. \<open>get_total_area([Rectangle(10, 5), Square(5)])\<close>, on the sibling classes of the
  final listing of shapes_lsp.py, returns \<open>75\<close>.
\<close>

theorem get_total_area_transcript:
  "get_total_area [Rectangle_lsp 10 5, Square_lsp 5] = 75"
  by (simp add: get_total_area_def)

section \<open>The refactoring of shapes_ocp.py keeps the areas\<close>

text \<open>
  C3. For all ints \<open>w\<close>, \<open>h\<close> and \<open>r\<close>, \<open>Rectangle(w, h).calculate_area()\<close> of the
  refactored classes gives what \<open>Shape("rectangle", width=w, height=h).calculate_area()\<close>
  of the class with a type tag gives, and \<open>Circle(r).calculate_area()\<close> gives what
  \<open>Shape("circle", radius=r).calculate_area()\<close> gives: the same value, or the same
  \<open>OverflowError\<close> when \<open>r**2\<close> is beyond the float range.
\<close>

theorem ocp_refactoring_same_areas:
  "fst (calculate_area_ocp (Rectangle_init w h))
     = Shape_area ''rectangle'' [''width'' \<mapsto> w, ''height'' \<mapsto> h]
   \<and> fst (calculate_area_ocp (Circle_init r)) = Shape_area ''circle'' [''radius'' \<mapsto> r]"
  by (simp add: Rectangle_init_def Circle_init_def Shape_area_def Shape_init_def
      Shape_calculate_area_def)

section \<open>The front end\<close>

text \<open>
  C5. \<open>FrontEnd(Database()).display_data()\<close> prints exactly the line
  \<open>Display data: Data from the database\<close>, and \<open>FrontEnd(API()).display_data()\<close>
  exactly the line \<open>Display data: Data from the API\<close>.
\<close>

theorem display_data_transcript:
  "display_data (FrontEnd_init Database) []
     = (Inr (), ''Display data: Data from the database'' @ [CHR 0x0A])
   \<and> display_data (FrontEnd_init API) []
     = (Inr (), ''Display data: Data from the API'' @ [CHR 0x0A])"
  by (simp add: display_data_def FrontEnd_init_def py_print_def)

section \<open>\<open>calculate_area\<close> keeps the object\<close>

text \<open>
  C6. For every object of the \<open>Shape\<close> with a type tag, of the refactored
  \<open>Circle\<close>, \<open>Rectangle\<close> and \<open>Square\<close> of shapes_ocp.py, and of the \<open>Rectangle\<close>
  and \<open>Square\<close> of both listings of shapes_lsp.py, a call of \<open>calculate_area()\<close>
  leaves every attribute as it was, and a second call on the same object ends as the
  first did (the same value, or the same exception).
\<close>

theorem calculate_area_frame:
  "snd (Shape_calculate_area s) = s
   \<and> fst (Shape_calculate_area (snd (Shape_calculate_area s))) = fst (Shape_calculate_area s)
   \<and> snd (calculate_area_ocp t) = t
   \<and> fst (calculate_area_ocp (snd (calculate_area_ocp t))) = fst (calculate_area_ocp t)
   \<and> snd (calculate_area_lsp u) = u
   \<and> fst (calculate_area_lsp (snd (calculate_area_lsp u))) = fst (calculate_area_lsp u)
   \<and> snd (calculate_area_lsp1 v) = v
   \<and> fst (calculate_area_lsp1 (snd (calculate_area_lsp1 v))) = fst (calculate_area_lsp1 v)"
proof -
  have mono: "snd (Shape_calculate_area s) = s"
    by (simp add: Shape_calculate_area_def)
  have ocp: "snd (calculate_area_ocp t) = t"
    by (cases t) simp_all
  have lsp: "snd (calculate_area_lsp u) = u"
    by (cases u) simp_all
  have lsp1: "snd (calculate_area_lsp1 v) = v"
    by (simp add: calculate_area_lsp1_def)
  show ?thesis
    by (simp only: mono ocp lsp lsp1)
qed

section \<open>The \<open>Square\<close> derived from \<open>Rectangle\<close>\<close>

lemma Square_setattr_width:
  "dict (Square_setattr self ''width'' v) = (dict self)(''width'' \<mapsto> v, ''height'' \<mapsto> v)"
  by (simp add: Square_setattr_def object_setattr_def)

lemma Square_setattr_height:
  "dict (Square_setattr self ''height'' v) = (dict self)(''width'' \<mapsto> v, ''height'' \<mapsto> v)"
  by (auto simp: Square_setattr_def object_setattr_def)

lemma Square_lsp1_dict:
  "Square_lsp1 side = \<lparr>cls = SquareClass, dict = [''width'' \<mapsto> side, ''height'' \<mapsto> side]\<rparr>"
  by (simp add: Square_lsp1_def Square_lsp1_init_def Rectangle_lsp1_init_def setattr_def
      Square_setattr_def object_setattr_def)

lemma Square_assign_width:
  "setattr (self\<lparr>cls := SquareClass\<rparr>) ''width'' v
     = \<lparr>cls = SquareClass, dict = (dict self)(''width'' \<mapsto> v, ''height'' \<mapsto> v)\<rparr>"
  using Square_setattr_width [of "self\<lparr>cls := SquareClass\<rparr>" v]
  by (simp add: setattr_def Square_setattr_def object_setattr_def)

lemma Square_assign_height:
  "setattr (self\<lparr>cls := SquareClass\<rparr>) ''height'' v
     = \<lparr>cls = SquareClass, dict = (dict self)(''width'' \<mapsto> v, ''height'' \<mapsto> v)\<rparr>"
  using Square_setattr_height [of "self\<lparr>cls := SquareClass\<rparr>" v]
  by (simp add: setattr_def Square_setattr_def object_setattr_def)

text \<open>
  C8. \<open>Square(side)\<close> has \<open>width\<close> and \<open>height\<close> equal to \<open>side\<close>, and on every
  object of class \<open>Square\<close> an assignment of a value to \<open>width\<close> or to \<open>height\<close> sets
  both attributes to that value and nothing else. So the transcript:
  \<open>vars(Square(5))\<close> is \<open>{'width': 5, 'height': 5}\<close>, after \<open>square.width = 7\<close> it
  is \<open>{'width': 7, 'height': 7}\<close>, and after \<open>square.height = 9\<close> it is
  \<open>{'width': 9, 'height': 9}\<close>.
\<close>

theorem Square_sides_stay_equal:
  "dict (Square_lsp1 side) = [''width'' \<mapsto> side, ''height'' \<mapsto> side]
   \<and> cls (Square_lsp1 side) = SquareClass
   \<and> setattr (self\<lparr>cls := SquareClass\<rparr>) ''width'' v
       = \<lparr>cls = SquareClass, dict = (dict self)(''width'' \<mapsto> v, ''height'' \<mapsto> v)\<rparr>
   \<and> setattr (self\<lparr>cls := SquareClass\<rparr>) ''height'' v
       = \<lparr>cls = SquareClass, dict = (dict self)(''width'' \<mapsto> v, ''height'' \<mapsto> v)\<rparr>
   \<and> dict (Square_lsp1 (5::int)) = [''width'' \<mapsto> 5, ''height'' \<mapsto> 5]
   \<and> dict (setattr (Square_lsp1 (5::int)) ''width'' 7) = [''width'' \<mapsto> 7, ''height'' \<mapsto> 7]
   \<and> dict (setattr (setattr (Square_lsp1 (5::int)) ''width'' 7) ''height'' 9)
       = [''width'' \<mapsto> 9, ''height'' \<mapsto> 9]"
proof -
  have s7: "setattr (Square_lsp1 (5::int)) ''width'' 7
      = \<lparr>cls = SquareClass, dict = [''width'' \<mapsto> 7, ''height'' \<mapsto> 7]\<rparr>"
    using Square_assign_width [of "Square_lsp1 (5::int)" 7] by (simp add: Square_lsp1_dict)
  have s9: "setattr (setattr (Square_lsp1 (5::int)) ''width'' 7) ''height'' 9
      = \<lparr>cls = SquareClass, dict = [''width'' \<mapsto> 9, ''height'' \<mapsto> 9]\<rparr>"
    using Square_assign_height
      [of "\<lparr>cls = SquareClass, dict = [''width'' \<mapsto> 7, ''height'' \<mapsto> 7]\<rparr>" "9::int"]
    by (simp add: s7)
  have c1: "dict (Square_lsp1 side) = [''width'' \<mapsto> side, ''height'' \<mapsto> side]"
    and c2: "cls (Square_lsp1 side) = SquareClass"
    and c5: "dict (Square_lsp1 (5::int)) = [''width'' \<mapsto> 5, ''height'' \<mapsto> 5]"
    by (simp_all add: Square_lsp1_dict)
  have c6: "dict (setattr (Square_lsp1 (5::int)) ''width'' 7) = [''width'' \<mapsto> 7, ''height'' \<mapsto> 7]"
    by (simp only: s7 object_lsp1.simps)
  have c7: "dict (setattr (setattr (Square_lsp1 (5::int)) ''width'' 7) ''height'' 9)
       = [''width'' \<mapsto> 9, ''height'' \<mapsto> 9]"
    by (simp only: s9 object_lsp1.simps)
  from c1 c2 Square_assign_width [of self v] Square_assign_height [of self v] c5 c6 c7
  show ?thesis
    by (intro conjI)
qed

section \<open>A \<open>Shape\<close> of an unknown type\<close>

text \<open>
  C9. When \<open>shape_type\<close> is neither \<open>"rectangle"\<close> nor \<open>"circle"\<close>, whatever the
  keyword arguments, \<open>Shape.__init__\<close> assigns \<open>shape_type\<close> only, and
  \<open>calculate_area()\<close> returns \<open>None\<close>: no number, no exception.
\<close>

theorem Shape_unknown_type_returns_None:
  assumes "shape_type' \<noteq> ''rectangle''" and "shape_type' \<noteq> ''circle''"
  shows "Shape_init shape_type' kwargs
           = Inr \<lparr>shape_type = shape_type', width = None, height = None, radius = None\<rparr>
         \<and> Shape_area shape_type' kwargs = Inr PNone"
  using assms by (simp add: Shape_area_def Shape_init_def Shape_calculate_area_def)

theorem Shape_unknown_type_returns_None_witness:
  "''triangle'' \<noteq> ''rectangle'' \<and> ''triangle'' \<noteq> ''circle''
   \<and> Shape_init ''triangle'' [''base'' \<mapsto> 3, ''height'' \<mapsto> 4]
       = Inr \<lparr>shape_type = ''triangle'', width = None, height = None, radius = None\<rparr>
   \<and> Shape_area ''triangle'' [''base'' \<mapsto> 3, ''height'' \<mapsto> 4] = Inr PNone"
  using Shape_unknown_type_returns_None [of "''triangle''" "[''base'' \<mapsto> 3, ''height'' \<mapsto> 4]"]
  by simp

section \<open>Writing a file and reading it back\<close>

text \<open>The decoder reads back what the encoder wrote, code point by code point.\<close>

lemma split3: "c div 4096 * 4096 + c div 64 mod 64 * 64 + c mod 64 = (c::nat)"
proof -
  have "c mod (64 * 64) = 64 * (c div 64 mod 64) + c mod 64"
    by (rule mod_mult2_eq)
  moreover have "c div 4096 * 4096 + c mod 4096 = c"
    by (rule div_mult_mod_eq)
  ultimately show ?thesis by simp
qed

lemma split4:
  "c div 262144 * 262144 + c div 4096 mod 64 * 4096 + c div 64 mod 64 * 64 + c mod 64 = (c::nat)"
proof -
  have "c mod (4096 * 64) = 4096 * (c div 4096 mod 64) + c mod 4096"
    by (rule mod_mult2_eq)
  moreover have "c mod (64 * 64) = 64 * (c div 64 mod 64) + c mod 64"
    by (rule mod_mult2_eq)
  moreover have "c div 262144 * 262144 + c mod 262144 = c"
    by (rule div_mult_mod_eq)
  ultimately show ?thesis by simp
qed

lemma decode2:
  assumes "0x80 \<le> c" "c < 0x800"
  shows "utf8_decode ([0xC0 + c div 64, 0x80 + c mod 64] @ rest) = decoded c (utf8_decode rest)"
proof -
  have 1: "c div 64 < 32" using assms by (simp add: less_mult_imp_div_less)
  have 2: "c div 64 * 64 + c mod 64 = c" by (rule div_mult_mod_eq)
  show ?thesis using assms
    by (simp add: continuation_def 1 2)
qed

lemma decode3:
  assumes "0x800 \<le> c" "c < 0x10000" "\<not> (0xD800 \<le> c \<and> c \<le> 0xDFFF)"
  shows "utf8_decode ([0xE0 + c div 4096, 0x80 + c div 64 mod 64, 0x80 + c mod 64] @ rest)
     = decoded c (utf8_decode rest)"
proof -
  have 1: "c div 4096 < 16" using assms by (simp add: less_mult_imp_div_less)
  show ?thesis using assms
    by (simp add: continuation_def 1 split3)
qed

lemma decode4:
  assumes "0x10000 \<le> c" "c < 0x110000"
  shows "utf8_decode ([0xF0 + c div 262144, 0x80 + c div 4096 mod 64, 0x80 + c div 64 mod 64,
        0x80 + c mod 64] @ rest) = decoded c (utf8_decode rest)"
proof -
  have 1: "c div 262144 < 8" using assms by (simp add: less_mult_imp_div_less)
  show ?thesis using assms
    by (simp add: continuation_def 1 split4)
qed

lemma utf8_decode_encode_cp:
  assumes "utf8_encode_cp c = Inr bs"
  shows "utf8_decode (bs @ rest) = decoded c (utf8_decode rest)"
proof -
  consider (a) "c < 0x80" | (b) "0x80 \<le> c" "c < 0x800"
    | (c) "0x800 \<le> c" "c < 0x10000" "\<not> (0xD800 \<le> c \<and> c \<le> 0xDFFF)"
    | (d) "0x10000 \<le> c" "c < 0x110000"
    using assms by (auto simp: utf8_encode_cp_def split: if_splits)
  then show ?thesis
  proof cases
    case a
    with assms show ?thesis by (auto simp: utf8_encode_cp_def)
  next
    case b
    with assms have "bs = [0xC0 + c div 64, 0x80 + c mod 64]"
      by (auto simp: utf8_encode_cp_def)
    with decode2 [OF b] show ?thesis by simp
  next
    case c
    with assms have "bs = [0xE0 + c div 4096, 0x80 + c div 64 mod 64, 0x80 + c mod 64]"
      by (auto simp: utf8_encode_cp_def)
    with decode3 [OF c] show ?thesis by simp
  next
    case d
    with assms have "bs = [0xF0 + c div 262144, 0x80 + c div 4096 mod 64,
        0x80 + c div 64 mod 64, 0x80 + c mod 64]"
      by (auto simp: utf8_encode_cp_def)
    with decode4 [OF d] show ?thesis by simp
  qed
qed

lemma utf8_decode_encode:
  "utf8_encode s = Inr bs \<Longrightarrow> utf8_decode bs = Inr s"
proof (induction s arbitrary: bs)
  case Nil
  then show ?case by simp
next
  case (Cons c cs)
  then obtain b r where b: "utf8_encode_cp c = Inr b" and r: "utf8_encode cs = Inr r"
    and bs: "bs = b @ r"
    by (auto split: sum.splits)
  from Cons.IH [OF r] utf8_decode_encode_cp [OF b, of r] show ?case
    by (simp add: bs decoded_def)
qed

lemma utf8_encode_cp_encodable:
  "encodable c \<Longrightarrow> \<exists>bs. utf8_encode_cp c = Inr bs"
  by (auto simp: encodable_def utf8_encode_cp_def)

lemma utf8_encode_encodable:
  "\<forall>c\<in>set s. encodable c \<Longrightarrow> \<exists>bs. utf8_encode s = Inr bs"
proof (induction s)
  case Nil
  then show ?case by simp
next
  case (Cons c cs)
  then obtain b r where "utf8_encode_cp c = Inr b" "utf8_encode cs = Inr r"
    using utf8_encode_cp_encodable [of c] by auto
  then show ?case by simp
qed

lemma translate_newlines_encodable:
  "\<forall>c\<in>set s. encodable c \<Longrightarrow> \<forall>c\<in>set (translate_newlines (linesep sys) s). encodable c"
  by (induction s) (cases sys; auto simp: encodable_def)+

text \<open>
  Without a carriage return in the text, the translation on reading undoes the one
  on writing, under either line separator.
\<close>

lemma universal_newlines_no_cr:
  "13 \<notin> set s \<Longrightarrow> universal_newlines s = s"
  by (induction s rule: universal_newlines.induct) auto

lemma universal_newlines_translate:
  "13 \<notin> set s \<Longrightarrow> universal_newlines (translate_newlines (linesep sys) s) = s"
proof (cases sys)
  case Posix
  assume "13 \<notin> set s"
  moreover have "translate_newlines [10] s = s"
    by (induction s) auto
  ultimately show ?thesis
    by (simp add: Posix universal_newlines_no_cr)
next
  case Windows
  assume "13 \<notin> set s"
  then have "universal_newlines (translate_newlines [13, 10] s) = s"
  proof (induction s)
    case Nil
    then show ?case by simp
  next
    case (Cons c cs)
    show ?case
    proof (cases "c = 10")
      case True
      with Cons show ?thesis by simp
    next
      case False
      with Cons have "c \<noteq> 13" by auto
      with False Cons show ?thesis
        by (cases "translate_newlines [13, 10] cs") auto
    qed
  qed
  then show ?thesis by (simp add: Windows)
qed

text \<open>
  C10, amended. On POSIX and on Windows, for every file name, every file system and
  every \<open>str\<close> \<open>data\<close> that holds no carriage return and no code point that UTF-8
  cannot encode, \<open>FileManager(filename).write(data)\<close> returns after storing the
  file, a following \<open>FileManager(filename).read()\<close> returns exactly \<open>data\<close>, and
  neither call changes \<open>path\<close> (nor does the read change the file system).
\<close>

theorem write_read_roundtrip:
  assumes "13 \<notin> set data" and "\<forall>c\<in>set data. encodable c"
  shows "\<exists>content.
           FileManager_write sys (FileManager_init filename) data fs
             = (Inr (), FileManager_init filename, fs(Path filename \<mapsto> content))
           \<and> FileManager_read (FileManager_init filename) (fs(Path filename \<mapsto> content))
             = (Inr data, FileManager_init filename, fs(Path filename \<mapsto> content))"
proof -
  from assms(2) obtain content
    where enc: "utf8_encode (translate_newlines (linesep sys) data) = Inr content"
    using utf8_encode_encodable [OF translate_newlines_encodable] by blast
  have dec: "utf8_decode content = Inr (translate_newlines (linesep sys) data)"
    using utf8_decode_encode [OF enc] .
  have "FileManager_write sys (FileManager_init filename) data fs
      = (Inr (), FileManager_init filename, fs(Path filename \<mapsto> content))"
    by (simp add: FileManager_write_def FileManager_init_def enc)
  moreover have "FileManager_read (FileManager_init filename) (fs(Path filename \<mapsto> content))
      = (Inr data, FileManager_init filename, fs(Path filename \<mapsto> content))"
    by (simp add: FileManager_read_def FileManager_init_def dec
        universal_newlines_translate [OF assms(1)])
  ultimately show ?thesis by blast
qed

theorem write_read_roundtrip_witness:
  "13 \<notin> set [104, 105, 10::nat] \<and> encodable 104 \<and> encodable 105 \<and> encodable 10
   \<and> (\<exists>content.
         FileManager_write Windows (FileManager_init ''notes.txt'') [104, 105, 10] Map.empty
           = (Inr (), FileManager_init ''notes.txt'', [Path ''notes.txt'' \<mapsto> content])
         \<and> FileManager_read (FileManager_init ''notes.txt'') [Path ''notes.txt'' \<mapsto> content]
           = (Inr [104, 105, 10], FileManager_init ''notes.txt'',
              [Path ''notes.txt'' \<mapsto> content]))"
  using write_read_roundtrip [of "[104, 105, 10]" Windows "''notes.txt''" Map.empty]
  by (simp add: encodable_def)

text \<open>
  As the claim is written, for every \<open>str\<close>, it fails: \<open>"\r"\<close> is written as it is
  and read back as \<open>"\n"\<close>; and the write of a lone surrogate raises.
\<close>

theorem carriage_return_not_read_back:
  "FileManager_write Posix (FileManager_init ''notes.txt'') [13] Map.empty
     = (Inr (), FileManager_init ''notes.txt'', [Path ''notes.txt'' \<mapsto> [13]])
   \<and> FileManager_read (FileManager_init ''notes.txt'') [Path ''notes.txt'' \<mapsto> [13]]
     = (Inr [10], FileManager_init ''notes.txt'', [Path ''notes.txt'' \<mapsto> [13]])
   \<and> fst (FileManager_read (FileManager_init ''notes.txt'') [Path ''notes.txt'' \<mapsto> [13]])
     \<noteq> Inr [13]
   \<and> FileManager_write Posix (FileManager_init ''notes.txt'') [0xD800] Map.empty
     = (Inl UnicodeEncodeError, FileManager_init ''notes.txt'', [Path ''notes.txt'' \<mapsto> []])"
  by (simp add: FileManager_write_def FileManager_read_def FileManager_init_def
      utf8_encode_cp_def decoded_def)

section \<open>The printers\<close>

text \<open>
  A literal of the listing is ASCII, which UTF-8 encodes; so a line made of two
  literals around a document is written whenever the document can be encoded.
\<close>

lemma literal_encodable: "c \<in> set (literal s) \<Longrightarrow> encodable c"
proof -
  assume "c \<in> set (literal s)"
  then obtain x where "c = of_char x" by (auto simp: literal_def)
  moreover have "(of_char x :: nat) mod 256 < 256" by simp
  ultimately have "c < 256" by simp
  then show ?thesis by (simp add: encodable_def)
qed

lemma print_str_encodable:
  assumes "\<forall>c\<in>set text. encodable c"
  shows "print_str text stdout = (Inr (), stdout @ text @ [10])"
proof -
  from assms obtain bs where "utf8_encode text = Inr bs"
    using utf8_encode_encodable by blast
  then show ?thesis
    by (simp add: print_str_def stdout_write_def utf8_encode_cp_def)
qed

lemma print_framed:
  assumes "\<forall>c\<in>set document. encodable c"
  shows "print_str (literal a @ document @ literal b) stdout
           = (Inr (), stdout @ literal a @ document @ literal b @ [10])"
  using print_str_encodable [of "literal a @ document @ literal b" stdout] assms
  by (auto dest: literal_encodable)

text \<open>
  C4, amended. In the first listing of printers_isp.py, for every document,
  \<open>OldPrinter.fax\<close> raises \<open>NotImplementedError("Fax functionality not supported")\<close>
  and \<open>OldPrinter.scan\<close> raises
  \<open>NotImplementedError("Scan functionality not supported")\<close>, both without output;
  and for every document that standard output can encode (no lone surrogate),
  \<open>OldPrinter.print\<close> returns after writing the line
  \<open>Printing {document} in black and white...\<close>.
\<close>

theorem OldPrinter_placeholders:
  "OldPrinter_fax document stdout
     = (Inl (NotImplementedError ''Fax functionality not supported''), stdout)
   \<and> OldPrinter_scan document stdout
     = (Inl (NotImplementedError ''Scan functionality not supported''), stdout)
   \<and> ((\<forall>c\<in>set document. encodable c) \<longrightarrow>
        OldPrinter_print document stdout
          = (Inr (), stdout @ literal ''Printing '' @ document
                      @ literal '' in black and white...'' @ [10]))"
  by (simp add: OldPrinter_fax_def OldPrinter_scan_def OldPrinter_print_def print_framed)

theorem OldPrinter_placeholders_witness:
  "encodable 104 \<and> encodable 105
   \<and> OldPrinter_fax [104, 105] []
     = (Inl (NotImplementedError ''Fax functionality not supported''), [])
   \<and> OldPrinter_scan [104, 105] []
     = (Inl (NotImplementedError ''Scan functionality not supported''), [])
   \<and> OldPrinter_print [104, 105] []
     = (Inr (), literal ''Printing '' @ [104, 105] @ literal '' in black and white...'' @ [10])"
  using OldPrinter_placeholders [of "[104, 105]" "[]"]
  by (simp add: encodable_def)

text \<open>
  For every document, as the claim is written, \<open>print\<close> does not complete: on the
  document \<open>"\ud800"\<close>, a lone surrogate, it raises \<open>UnicodeEncodeError\<close> and
  writes nothing.
\<close>

theorem OldPrinter_print_surrogate:
  "OldPrinter_print [0xD800] [] = (Inl UnicodeEncodeError, [])"
  by (simp add: OldPrinter_print_def print_str_def stdout_write_def literal_def
      utf8_encode_cp_def)

text \<open>
  C7, amended. For every document that standard output can encode (no lone
  surrogate), \<open>print\<close>, \<open>fax\<close> and \<open>scan\<close> of \<open>ModernPrinter\<close> and of \<open>NewPrinter\<close>,
  and \<open>print\<close> of the \<open>OldPrinter\<close> of the second listing, return without raising,
  each after writing its line.
\<close>

theorem printers_complete_normally:
  assumes "\<forall>c\<in>set document. encodable c"
  shows "ModernPrinter_print document stdout
           = (Inr (), stdout @ literal ''Printing '' @ document @ literal '' in color...'' @ [10])
       \<and> ModernPrinter_fax document stdout
           = (Inr (), stdout @ literal ''Faxing '' @ document @ literal ''...'' @ [10])
       \<and> ModernPrinter_scan document stdout
           = (Inr (), stdout @ literal ''Scanning '' @ document @ literal ''...'' @ [10])
       \<and> NewPrinter_print document stdout
           = (Inr (), stdout @ literal ''Printing '' @ document @ literal '' in color...'' @ [10])
       \<and> NewPrinter_fax document stdout
           = (Inr (), stdout @ literal ''Faxing '' @ document @ literal ''...'' @ [10])
       \<and> NewPrinter_scan document stdout
           = (Inr (), stdout @ literal ''Scanning '' @ document @ literal ''...'' @ [10])
       \<and> OldPrinter_isp_print document stdout
           = (Inr (), stdout @ literal ''Printing '' @ document
                       @ literal '' in black and white...'' @ [10])"
  by (simp only: ModernPrinter_print_def ModernPrinter_fax_def ModernPrinter_scan_def
      NewPrinter_print_def NewPrinter_fax_def NewPrinter_scan_def OldPrinter_isp_print_def
      print_framed [OF assms] simp_thms)

theorem printers_complete_normally_witness:
  "encodable 104 \<and> encodable 105
   \<and> ModernPrinter_print [104, 105] []
       = (Inr (), literal ''Printing '' @ [104, 105] @ literal '' in color...'' @ [10])
   \<and> ModernPrinter_fax [104, 105] []
       = (Inr (), literal ''Faxing '' @ [104, 105] @ literal ''...'' @ [10])
   \<and> ModernPrinter_scan [104, 105] []
       = (Inr (), literal ''Scanning '' @ [104, 105] @ literal ''...'' @ [10])
   \<and> NewPrinter_print [104, 105] []
       = (Inr (), literal ''Printing '' @ [104, 105] @ literal '' in color...'' @ [10])
   \<and> NewPrinter_fax [104, 105] []
       = (Inr (), literal ''Faxing '' @ [104, 105] @ literal ''...'' @ [10])
   \<and> NewPrinter_scan [104, 105] []
       = (Inr (), literal ''Scanning '' @ [104, 105] @ literal ''...'' @ [10])
   \<and> OldPrinter_isp_print [104, 105] []
       = (Inr (), literal ''Printing '' @ [104, 105] @ literal '' in black and white...'' @ [10])"
  using printers_complete_normally [of "[104, 105]" "[]"]
  by (simp add: encodable_def)

text \<open>
  For every document, as the claim is written, it fails: on the document
  \<open>"\ud800"\<close> each of the seven methods raises \<open>UnicodeEncodeError\<close> and writes
  nothing.
\<close>

theorem printers_raise_on_surrogate:
  "ModernPrinter_print [0xD800] [] = (Inl UnicodeEncodeError, [])
   \<and> ModernPrinter_fax [0xD800] [] = (Inl UnicodeEncodeError, [])
   \<and> ModernPrinter_scan [0xD800] [] = (Inl UnicodeEncodeError, [])
   \<and> NewPrinter_print [0xD800] [] = (Inl UnicodeEncodeError, [])
   \<and> NewPrinter_fax [0xD800] [] = (Inl UnicodeEncodeError, [])
   \<and> NewPrinter_scan [0xD800] [] = (Inl UnicodeEncodeError, [])
   \<and> OldPrinter_isp_print [0xD800] [] = (Inl UnicodeEncodeError, [])"
  by (simp add: ModernPrinter_print_def ModernPrinter_fax_def ModernPrinter_scan_def
      NewPrinter_print_def NewPrinter_fax_def NewPrinter_scan_def OldPrinter_isp_print_def
      print_str_def stdout_write_def literal_def utf8_encode_cp_def)

end
